theory Spec2Isabelle
  imports Complex_Main "HOL-Library.AList"
begin

section \<open>Python objects: a store of mutable instances\<close>

text \<open>
  The builders of \<^verbatim>\<open>qwen.py\<close> create dataclass instances, hand references to them
  around and assign to their fields afterwards. Objects therefore live in a store; a
  reference is a position in it. Creating an object appends to the store, so a new
  reference is never one that is already in use, as in Python.
\<close>

type_synonym ref = nat

datatype error =
  AttributeError | TypeError | IndexError | RuntimeError | AssertionError | SkipTest

text \<open>
  Sequencing of steps that may raise: the first exception ends the run.
\<close>

definition bind :: "error + 'a \<Rightarrow> ('a \<Rightarrow> error + 'b) \<Rightarrow> error + 'b" where
  "bind m f = (case m of Inl e \<Rightarrow> Inl e | Inr x \<Rightarrow> f x)"

subsection \<open>The configuration classes\<close>

text \<open>
  The classes of \<^verbatim>\<open>ai_edge_torch.generative.layers.model_config\<close> are used here
  with the fields that \<^verbatim>\<open>qwen.py\<close> passes by keyword; their declarations (and the
  defaults of any further field) belong to a module that is not verified here. A member
  of one of its enumerations is identified by its name. A Python float is represented by the decimal
  number its literal denotes. A field that holds another config object is typed by a
  parameter: it is a reference for the object in the store, and the object itself in a
  value read out of the store.

  The field \<^verbatim>\<open>type\<close> occurs in three classes; it is named \<open>act_type\<close>,
  \<open>ff_type\<close> and \<open>norm_type\<close> here. The single positional argument of
  \<^verbatim>\<open>ActivationConfig\<close> is taken to be that field.
\<close>

datatype ActivationType = ActivationType string
datatype FeedForwardType = FeedForwardType string
datatype NormalizationType = NormalizationType string

record AttentionConfig =
  num_heads :: int
  head_dim :: int
  num_query_groups :: int
  rotary_base :: int
  rotary_percentage :: rat
  qkv_use_bias :: bool

record ActivationConfig =
  act_type :: ActivationType

record 'act FeedForwardConfig =
  ff_type :: FeedForwardType
  activation :: 'act
  intermediate_size :: int

record NormalizationConfig =
  norm_type :: NormalizationType
  epsilon :: rat

record ('attn, 'ff, 'norm) TransformerBlockConfig =
  attn_config :: 'attn
  ff_config :: 'ff
  pre_attention_norm_config :: 'norm
  post_attention_norm_config :: 'norm

record ('block, 'norm) ModelConfig =
  vocab_size :: int
  num_layers :: int
  max_seq_len :: int
  embedding_dim :: int
  kv_cache_max_len :: int
  block_configs :: 'block
  final_norm_config :: 'norm
  enable_hlfb :: bool

text \<open>The same classes with every nested object read out of the store.\<close>

type_synonym FeedForwardConfig_value = "ActivationConfig FeedForwardConfig"

type_synonym TransformerBlockConfig_value =
  "(AttentionConfig, FeedForwardConfig_value, NormalizationConfig) TransformerBlockConfig"

type_synonym ModelConfig_value =
  "(TransformerBlockConfig_value, NormalizationConfig) ModelConfig"

subsection \<open>Tensors and instances of other classes\<close>

text \<open>
  A tensor is its shape, its element type and its elements in row-major order.
\<close>

datatype dtype = Int64 | Float32

record 'a tensor =
  shape :: "nat list"
  dtype :: dtype
  elems :: "'a list"

text \<open>
  An instance of a class whose declaration belongs to another module (the tensor-name table of the
  loader, a \<^verbatim>\<open>torch.nn\<close> module, a parameter) is the dictionary of its
  attributes. An attribute holds \<^verbatim>\<open>None\<close>, a string or a reference.
\<close>

datatype pyval = PyNone | PyStr string | PyRef ref

subsection \<open>The store\<close>

datatype obj =
    OAttentionConfig AttentionConfig
  | OActivationConfig ActivationConfig
  | OFeedForwardConfig "ref FeedForwardConfig"
  | ONormalizationConfig NormalizationConfig
  | OTransformerBlockConfig "(ref, ref, ref) TransformerBlockConfig"
  | OModelConfig "(ref, ref) ModelConfig"
  | OInstance "(string \<times> pyval) list"
  | OTensor "rat tensor"

type_synonym heap = "obj list"

definition new :: "obj \<Rightarrow> heap \<Rightarrow> ref \<times> heap" where
  "new v h = (length h, h @ [v])"

definition lookup :: "heap \<Rightarrow> ref \<Rightarrow> obj option" where
  "lookup h r = (if r < length h then Some (h ! r) else None)"

text \<open>
  Reading an object as an instance of a class. A reference to an object of another class
  has none of the fields asked for: \<^verbatim>\<open>AttributeError\<close>.
\<close>

definition get_AttentionConfig :: "heap \<Rightarrow> ref \<Rightarrow> error + AttentionConfig" where
  "get_AttentionConfig h r =
     (case lookup h r of Some (OAttentionConfig a) \<Rightarrow> Inr a | _ \<Rightarrow> Inl AttributeError)"

definition get_ActivationConfig :: "heap \<Rightarrow> ref \<Rightarrow> error + ActivationConfig" where
  "get_ActivationConfig h r =
     (case lookup h r of Some (OActivationConfig a) \<Rightarrow> Inr a | _ \<Rightarrow> Inl AttributeError)"

definition get_FeedForwardConfig :: "heap \<Rightarrow> ref \<Rightarrow> error + ref FeedForwardConfig" where
  "get_FeedForwardConfig h r =
     (case lookup h r of Some (OFeedForwardConfig f) \<Rightarrow> Inr f | _ \<Rightarrow> Inl AttributeError)"

definition get_NormalizationConfig :: "heap \<Rightarrow> ref \<Rightarrow> error + NormalizationConfig" where
  "get_NormalizationConfig h r =
     (case lookup h r of Some (ONormalizationConfig n) \<Rightarrow> Inr n | _ \<Rightarrow> Inl AttributeError)"

definition get_TransformerBlockConfig ::
  "heap \<Rightarrow> ref \<Rightarrow> error + (ref, ref, ref) TransformerBlockConfig" where
  "get_TransformerBlockConfig h r =
     (case lookup h r of Some (OTransformerBlockConfig b) \<Rightarrow> Inr b | _ \<Rightarrow> Inl AttributeError)"

definition get_ModelConfig :: "heap \<Rightarrow> ref \<Rightarrow> error + (ref, ref) ModelConfig" where
  "get_ModelConfig h r =
     (case lookup h r of Some (OModelConfig m) \<Rightarrow> Inr m | _ \<Rightarrow> Inl AttributeError)"

text \<open>
  Assigning to fields of the object behind a reference: the object is replaced in place,
  every other object of the store stays as it is.
\<close>

definition upd_AttentionConfig ::
  "(AttentionConfig \<Rightarrow> AttentionConfig) \<Rightarrow> ref \<Rightarrow> heap \<Rightarrow> error + heap" where
  "upd_AttentionConfig f r h =
     bind (get_AttentionConfig h r) (\<lambda>a. Inr (h[r := OAttentionConfig (f a)]))"

definition upd_FeedForwardConfig ::
  "(ref FeedForwardConfig \<Rightarrow> ref FeedForwardConfig) \<Rightarrow> ref \<Rightarrow> heap \<Rightarrow> error + heap" where
  "upd_FeedForwardConfig f r h =
     bind (get_FeedForwardConfig h r) (\<lambda>a. Inr (h[r := OFeedForwardConfig (f a)]))"

definition upd_NormalizationConfig ::
  "(NormalizationConfig \<Rightarrow> NormalizationConfig) \<Rightarrow> ref \<Rightarrow> heap \<Rightarrow> error + heap" where
  "upd_NormalizationConfig f r h =
     bind (get_NormalizationConfig h r) (\<lambda>a. Inr (h[r := ONormalizationConfig (f a)]))"

definition upd_ModelConfig ::
  "((ref, ref) ModelConfig \<Rightarrow> (ref, ref) ModelConfig) \<Rightarrow> ref \<Rightarrow> heap \<Rightarrow> error + heap" where
  "upd_ModelConfig f r h =
     bind (get_ModelConfig h r) (\<lambda>a. Inr (h[r := OModelConfig (f a)]))"

text \<open>
  Modelled from the spec: \<^verbatim>\<open>ModelConfig.block_config(idx)\<close> is declared with the
  class, in a module that is not verified here. The builders store one
  \<^verbatim>\<open>TransformerBlockConfig\<close> as \<^verbatim>\<open>block_configs\<close> and call
  \<^verbatim>\<open>block_config(0)\<close> under the comment "Qwen has only one block config": the
  call yields that one object.
\<close>

definition block_config :: "heap \<Rightarrow> ref \<Rightarrow> int \<Rightarrow> error + ref" where
  "block_config h config idx = bind (get_ModelConfig h config) (\<lambda>m. Inr (block_configs m))"

subsection \<open>Attributes of instances\<close>

text \<open>
  \<^verbatim>\<open>obj.name\<close>, \<^verbatim>\<open>obj.name = value\<close> and a chain
  \<^verbatim>\<open>obj.a.b.c\<close> on instances. An assignment replaces the attribute in the
  object's dictionary or adds it.
\<close>

definition getattr :: "heap \<Rightarrow> ref \<Rightarrow> string \<Rightarrow> error + pyval" where
  "getattr h r name =
     (case lookup h r of
        Some (OInstance attrs) \<Rightarrow>
          (case map_of attrs name of Some v \<Rightarrow> Inr v | None \<Rightarrow> Inl AttributeError)
      | _ \<Rightarrow> Inl AttributeError)"

definition setattr :: "pyval \<Rightarrow> string \<Rightarrow> pyval \<Rightarrow> heap \<Rightarrow> error + heap" where
  "setattr target name v h =
     (case target of
        PyRef r \<Rightarrow>
          (case lookup h r of
             Some (OInstance attrs) \<Rightarrow> Inr (h[r := OInstance (AList.update name v attrs)])
           | _ \<Rightarrow> Inl AttributeError)
      | _ \<Rightarrow> Inl AttributeError)"

fun getattr_path :: "heap \<Rightarrow> pyval \<Rightarrow> string list \<Rightarrow> error + pyval" where
  "getattr_path h v [] = Inr v"
| "getattr_path h v (name # names) =
     (case v of
        PyRef r \<Rightarrow> bind (getattr h r name) (\<lambda>v'. getattr_path h v' names)
      | _ \<Rightarrow> Inl AttributeError)"

text \<open>
  \<^verbatim>\<open>copy.copy(obj)\<close>: a new object with the same fields; what the fields refer
  to is shared, not copied.
\<close>

definition copy_copy :: "ref \<Rightarrow> heap \<Rightarrow> error + ref \<times> heap" where
  "copy_copy r h = (case lookup h r of Some v \<Rightarrow> Inr (new v h) | None \<Rightarrow> Inl AttributeError)"

text \<open>Reading a tensor, and overwriting its elements in place.\<close>

definition read_tensor :: "heap \<Rightarrow> pyval \<Rightarrow> error + rat tensor" where
  "read_tensor h v =
     (case v of
        PyRef r \<Rightarrow> (case lookup h r of Some (OTensor t) \<Rightarrow> Inr t | _ \<Rightarrow> Inl TypeError)
      | _ \<Rightarrow> Inl TypeError)"

definition write_tensor :: "pyval \<Rightarrow> rat list \<Rightarrow> heap \<Rightarrow> error + heap" where
  "write_tensor v xs h =
     (case v of
        PyRef r \<Rightarrow>
          (case lookup h r of
             Some (OTensor t) \<Rightarrow> Inr (h[r := OTensor (t\<lparr>elems := xs\<rparr>)])
           | _ \<Rightarrow> Inl TypeError)
      | _ \<Rightarrow> Inl TypeError)"

subsection \<open>Reading a whole configuration\<close>

definition read_FeedForwardConfig :: "heap \<Rightarrow> ref \<Rightarrow> error + FeedForwardConfig_value" where
  "read_FeedForwardConfig h r =
     bind (get_FeedForwardConfig h r) (\<lambda>f.
     bind (get_ActivationConfig h (activation f)) (\<lambda>a.
     Inr \<lparr>ff_type = ff_type f, activation = a, intermediate_size = intermediate_size f\<rparr>))"

definition read_TransformerBlockConfig ::
  "heap \<Rightarrow> ref \<Rightarrow> error + TransformerBlockConfig_value" where
  "read_TransformerBlockConfig h r =
     bind (get_TransformerBlockConfig h r) (\<lambda>b.
     bind (get_AttentionConfig h (attn_config b)) (\<lambda>a.
     bind (read_FeedForwardConfig h (ff_config b)) (\<lambda>f.
     bind (get_NormalizationConfig h (pre_attention_norm_config b)) (\<lambda>pre.
     bind (get_NormalizationConfig h (post_attention_norm_config b)) (\<lambda>post.
     Inr \<lparr>attn_config = a, ff_config = f,
          pre_attention_norm_config = pre, post_attention_norm_config = post\<rparr>)))))"

definition read_ModelConfig :: "heap \<Rightarrow> ref \<Rightarrow> error + ModelConfig_value" where
  "read_ModelConfig h r =
     bind (get_ModelConfig h r) (\<lambda>m.
     bind (read_TransformerBlockConfig h (block_configs m)) (\<lambda>b.
     bind (get_NormalizationConfig h (final_norm_config m)) (\<lambda>n.
     Inr \<lparr>vocab_size = vocab_size m, num_layers = num_layers m,
          max_seq_len = max_seq_len m, embedding_dim = embedding_dim m,
          kv_cache_max_len = kv_cache_max_len m, block_configs = b,
          final_norm_config = n, enable_hlfb = enable_hlfb m\<rparr>)))"

section \<open>The Qwen 2.5 configurations (qwen.py)\<close>

text \<open>
  \<^verbatim>\<open>get_3b_model_config(kv_cache_max_len: int = 1024)\<close>. The optional argument is
  an \<open>int option\<close>: \<open>None\<close> when the caller leaves it out.
\<close>

definition get_3b_model_config :: "int option \<Rightarrow> heap \<Rightarrow> ref \<times> heap" where
  "get_3b_model_config arg h0 =
     (let kv_cache_max_len = (case arg of None \<Rightarrow> 1024 | Some k \<Rightarrow> k);
          (attn_config, h1) = new (OAttentionConfig
             \<lparr>num_heads = 16, head_dim = 128, num_query_groups = 2, rotary_base = 1000000,
              rotary_percentage = 1, qkv_use_bias = True\<rparr>) h0;
          (act, h2) = new (OActivationConfig \<lparr>act_type = ActivationType ''SILU''\<rparr>) h1;
          (ff_config, h3) = new (OFeedForwardConfig
             \<lparr>ff_type = FeedForwardType ''GATED'', activation = act,
              intermediate_size = 11008\<rparr>) h2;
          (norm_config, h4) = new (ONormalizationConfig
             \<lparr>norm_type = NormalizationType ''RMS_NORM'', epsilon = 1 / 1000000\<rparr>) h3;
          (block_config, h5) = new (OTransformerBlockConfig
             \<lparr>attn_config = attn_config, ff_config = ff_config,
              pre_attention_norm_config = norm_config,
              post_attention_norm_config = norm_config\<rparr>) h4;
          (config, h6) = new (OModelConfig
             \<lparr>vocab_size = 151936, num_layers = 36, max_seq_len = 32768, embedding_dim = 2048,
              kv_cache_max_len = kv_cache_max_len, block_configs = block_config,
              final_norm_config = norm_config, enable_hlfb = True\<rparr>) h5
      in (config, h6))"

text \<open>
  \<^verbatim>\<open>get_1_5b_model_config\<close> and \<^verbatim>\<open>get_0_5b_model_config\<close> build the
  3B configuration, passing their own argument on by position, and then assign to fields
  of the objects it consists of.
\<close>

definition get_1_5b_model_config :: "int option \<Rightarrow> heap \<Rightarrow> error + ref \<times> heap" where
  "get_1_5b_model_config arg h0 =
     (let kv_cache_max_len = (case arg of None \<Rightarrow> 1024 | Some k \<Rightarrow> k);
          (config, h1) = get_3b_model_config (Some kv_cache_max_len) h0
      in bind (block_config h1 config 0) (\<lambda>block_config.
         bind (get_TransformerBlockConfig h1 block_config) (\<lambda>b.
         bind (upd_AttentionConfig (\<lambda>a. a\<lparr>num_heads := 12\<rparr>) (attn_config b) h1) (\<lambda>h2.
         bind (get_TransformerBlockConfig h2 block_config) (\<lambda>b.
         bind (upd_FeedForwardConfig (\<lambda>f. f\<lparr>intermediate_size := 8960\<rparr>) (ff_config b) h2) (\<lambda>h3.
         bind (upd_ModelConfig (\<lambda>m. m\<lparr>num_layers := 28\<rparr>) config h3) (\<lambda>h4.
         bind (upd_ModelConfig (\<lambda>m. m\<lparr>embedding_dim := 1536\<rparr>) config h4) (\<lambda>h5.
         Inr (config, h5)))))))))"

definition get_0_5b_model_config :: "int option \<Rightarrow> heap \<Rightarrow> error + ref \<times> heap" where
  "get_0_5b_model_config arg h0 =
     (let kv_cache_max_len = (case arg of None \<Rightarrow> 1024 | Some k \<Rightarrow> k);
          (config, h1) = get_3b_model_config (Some kv_cache_max_len) h0
      in bind (block_config h1 config 0) (\<lambda>block_config.
         bind (get_TransformerBlockConfig h1 block_config) (\<lambda>b.
         bind (upd_AttentionConfig (\<lambda>a. a\<lparr>num_heads := 14\<rparr>) (attn_config b) h1) (\<lambda>h2.
         bind (get_TransformerBlockConfig h2 block_config) (\<lambda>b.
         bind (upd_AttentionConfig (\<lambda>a. a\<lparr>head_dim := 64\<rparr>) (attn_config b) h2) (\<lambda>h3.
         bind (get_TransformerBlockConfig h3 block_config) (\<lambda>b.
         bind (upd_FeedForwardConfig (\<lambda>f. f\<lparr>intermediate_size := 4864\<rparr>) (ff_config b) h3) (\<lambda>h4.
         bind (upd_ModelConfig (\<lambda>m. m\<lparr>num_layers := 24\<rparr>) config h4) (\<lambda>h5.
         bind (upd_ModelConfig (\<lambda>m. m\<lparr>embedding_dim := 896\<rparr>) config h5) (\<lambda>h6.
         Inr (config, h6)))))))))))"

text \<open>
  \<^verbatim>\<open>get_fake_model_config(**kwargs)\<close> hands its keyword arguments on to
  \<^verbatim>\<open>get_3b_model_config\<close>, whose only parameter is
  \<^verbatim>\<open>kv_cache_max_len\<close>: any other keyword is a \<^verbatim>\<open>TypeError\<close> of the call.
  The keyword arguments are an association list from names to integers.
\<close>

definition call_get_3b_model_config :: "(string \<times> int) list \<Rightarrow> heap \<Rightarrow> error + ref \<times> heap" where
  "call_get_3b_model_config kwargs h =
     (if list_all (\<lambda>kw. fst kw = ''kv_cache_max_len'') kwargs
      then Inr (get_3b_model_config (map_of kwargs ''kv_cache_max_len'') h)
      else Inl TypeError)"

definition get_fake_model_config :: "(string \<times> int) list \<Rightarrow> heap \<Rightarrow> error + ref \<times> heap" where
  "get_fake_model_config kwargs h0 =
     bind (call_get_3b_model_config kwargs h0) (\<lambda>(config, h1).
     bind (upd_ModelConfig (\<lambda>m. m\<lparr>vocab_size := 128\<rparr>) config h1) (\<lambda>h2.
     bind (upd_ModelConfig (\<lambda>m. m\<lparr>num_layers := 2\<rparr>) config h2) (\<lambda>h3.
     bind (block_config h3 config 0) (\<lambda>block_config.
     bind (get_TransformerBlockConfig h3 block_config) (\<lambda>b.
     bind (upd_FeedForwardConfig (\<lambda>f. f\<lparr>intermediate_size := 64\<rparr>) (ff_config b) h3) (\<lambda>h4.
     Inr (config, h4)))))))"

subsection \<open>Observing a built configuration\<close>

text \<open>The configuration a builder returns, read out of the store it leaves.\<close>

definition read_built :: "error + ref \<times> heap \<Rightarrow> error + ModelConfig_value" where
  "read_built res = bind res (\<lambda>(config, h). read_ModelConfig h config)"

text \<open>
  The three places of a model configuration that hold a normalization config, and the
  Python statements \<^verbatim>\<open>config.<place>.epsilon = e\<close> and
  \<^verbatim>\<open>config.<place>.epsilon\<close> for each of them.
\<close>

datatype norm_place = PreAttentionNorm | PostAttentionNorm | FinalNorm

definition norm_ref :: "heap \<Rightarrow> ref \<Rightarrow> norm_place \<Rightarrow> error + ref" where
  "norm_ref h config p =
     bind (get_ModelConfig h config) (\<lambda>m.
       case p of
         FinalNorm \<Rightarrow> Inr (final_norm_config m)
       | PreAttentionNorm \<Rightarrow>
           bind (block_config h config 0) (\<lambda>blk.
           bind (get_TransformerBlockConfig h blk) (\<lambda>b. Inr (pre_attention_norm_config b)))
       | PostAttentionNorm \<Rightarrow>
           bind (block_config h config 0) (\<lambda>blk.
           bind (get_TransformerBlockConfig h blk) (\<lambda>b. Inr (post_attention_norm_config b))))"

definition set_epsilon :: "ref \<Rightarrow> norm_place \<Rightarrow> rat \<Rightarrow> heap \<Rightarrow> error + heap" where
  "set_epsilon config p e h =
     bind (norm_ref h config p) (\<lambda>n. upd_NormalizationConfig (\<lambda>c. c\<lparr>epsilon := e\<rparr>) n h)"

definition get_epsilon :: "heap \<Rightarrow> ref \<Rightarrow> norm_place \<Rightarrow> error + rat" where
  "get_epsilon h config p =
     bind (norm_ref h config p) (\<lambda>n.
     bind (get_NormalizationConfig h n) (\<lambda>c. Inr (epsilon c)))"

section \<open>The module's tensor-name table and the model class (qwen.py)\<close>

text \<open>
  The two module-level statements
  \<^verbatim>\<open>TENSOR_NAMES = copy.copy(tiny_llama.TENSOR_NAMES)\<close> and
  \<^verbatim>\<open>TENSOR_NAMES.lm_head = None\<close>, run when the module is imported. The
  argument is the reference held by \<^verbatim>\<open>tiny_llama.TENSOR_NAMES\<close>; the result is
  the reference bound to the module's own \<^verbatim>\<open>TENSOR_NAMES\<close>.
\<close>

definition qwen_TENSOR_NAMES :: "ref \<Rightarrow> heap \<Rightarrow> error + ref \<times> heap" where
  "qwen_TENSOR_NAMES tiny_llama_TENSOR_NAMES h0 =
     bind (copy_copy tiny_llama_TENSOR_NAMES h0) (\<lambda>(TENSOR_NAMES, h1).
     bind (setattr (PyRef TENSOR_NAMES) ''lm_head'' PyNone h1) (\<lambda>h2.
     Inr (TENSOR_NAMES, h2)))"

text \<open>
  \<^verbatim>\<open>Qwen.__init__(self, config)\<close>. The constructor of the superclass
  \<^verbatim>\<open>tiny_llama.TinyLlama\<close> belongs to a module that is not verified here and is
  a parameter: any function that works on the store and may raise. The attribute
  \<^verbatim>\<open>data\<close> of a parameter refers to the tensor that holds its values.
\<close>

definition Qwen_init ::
  "(ref \<Rightarrow> ref \<Rightarrow> heap \<Rightarrow> error + heap) \<Rightarrow> ref \<Rightarrow> ref \<Rightarrow> heap \<Rightarrow> error + heap" where
  "Qwen_init TinyLlama_init self config h0 =
     bind (TinyLlama_init self config h0) (\<lambda>h1.
     bind (getattr_path h1 (PyRef self) [''tok_embedding'', ''weight'', ''data'']) (\<lambda>data.
     bind (getattr_path h1 (PyRef self) [''lm_head'', ''weight'']) (\<lambda>weight.
     setattr weight ''data'' data h1)))"

text \<open>
  The values of a layer's weight as seen from the model, and an in-place change of them
  made through the model.
\<close>

definition weight_of :: "heap \<Rightarrow> ref \<Rightarrow> string \<Rightarrow> error + rat tensor" where
  "weight_of h model layer =
     bind (getattr_path h (PyRef model) [layer, ''weight'', ''data'']) (read_tensor h)"

definition overwrite_weight :: "ref \<Rightarrow> string \<Rightarrow> rat list \<Rightarrow> heap \<Rightarrow> error + heap" where
  "overwrite_weight model layer xs h =
     bind (getattr_path h (PyRef model) [layer, ''weight'', ''data'']) (\<lambda>d. write_tensor d xs h)"

text \<open>
  A small superclass constructor to run \<open>Qwen_init\<close> on: it gives the model an
  embedding and a head, each with a weight tensor of its own.
\<close>

definition two_layer_init :: "ref \<Rightarrow> ref \<Rightarrow> heap \<Rightarrow> error + heap" where
  "two_layer_init self config h0 =
     (let (t1, h1) = new (OTensor \<lparr>shape = [2], dtype = Float32, elems = [1, 2]\<rparr>) h0;
          (w1, h2) = new (OInstance [(''data'', PyRef t1)]) h1;
          (emb, h3) = new (OInstance [(''weight'', PyRef w1)]) h2;
          (t2, h4) = new (OTensor \<lparr>shape = [2], dtype = Float32, elems = [0, 0]\<rparr>) h3;
          (w2, h5) = new (OInstance [(''data'', PyRef t2)]) h4;
          (lin, h6) = new (OInstance [(''weight'', PyRef w2)]) h5
      in bind (setattr (PyRef self) ''tok_embedding'' (PyRef emb) h6) (\<lambda>h7.
         setattr (PyRef self) ''lm_head'' (PyRef lin) h7))"

section \<open>The conversion tests (test_model_conversion_large.py)\<close>

subsection \<open>The tensor operations the tests use\<close>

text \<open>
  \<^verbatim>\<open>np.array\<close> of a list of rows followed by \<^verbatim>\<open>torch.from_numpy\<close>,
  \<^verbatim>\<open>torch.full(shape, value, dtype=torch.long)\<close> and
  \<^verbatim>\<open>torch.arange(start, end)\<close> on integers.
\<close>

definition from_numpy_array :: "int list list \<Rightarrow> int tensor" where
  "from_numpy_array rows =
     \<lparr>shape = [length rows, (case rows of [] \<Rightarrow> 0 | r # _ \<Rightarrow> length r)],
      dtype = Int64, elems = concat rows\<rparr>"

definition torch_full :: "nat list \<Rightarrow> int \<Rightarrow> int tensor" where
  "torch_full sh v = \<lparr>shape = sh, dtype = Int64, elems = replicate (prod_list sh) v\<rparr>"

definition torch_arange :: "int \<Rightarrow> int \<Rightarrow> int tensor" where
  "torch_arange start stop =
     \<lparr>shape = [nat (stop - start)], dtype = Int64, elems = [start..stop - 1]\<rparr>"

text \<open>
  \<^verbatim>\<open>t[row, :stop] = v\<close> on a two-dimensional tensor. The slice ends at the row's
  length at the latest. Leading dimensions of size one of \<open>v\<close> are dropped; what is
  left has to be the slice's shape, or a single element, which fills the slice.
\<close>

definition setitem_row_prefix ::
  "int tensor \<Rightarrow> nat \<Rightarrow> nat \<Rightarrow> int tensor \<Rightarrow> error + int tensor" where
  "setitem_row_prefix t row stop v =
     (case shape t of
        [r, c] \<Rightarrow>
          if row < r then
            (let w = min stop c;
                 vs = dropWhile (\<lambda>d. d = 1) (shape v);
                 before = take (row * c) (elems t);
                 after = drop (row * c + w) (elems t)
             in if vs = [w] then Inr (t\<lparr>elems := before @ elems v @ after\<rparr>)
                else if vs = [] then
                  (case elems v of
                     [x] \<Rightarrow> Inr (t\<lparr>elems := before @ replicate w x @ after\<rparr>)
                   | _ \<Rightarrow> Inl RuntimeError)
                else Inl RuntimeError)
          else Inl IndexError
      | _ \<Rightarrow> Inl IndexError)"

subsection \<open>What the tests call\<close>

text \<open>
  The model modules (\<^verbatim>\<open>gemma\<close>, \<^verbatim>\<open>gemma2\<close>, \<^verbatim>\<open>phi2\<close>) and the
  library functions the tests call belong to modules that are not verified here. They are
  parameters: functions of their arguments that return a value or raise. The types of
  configs, models, KV caches, converted models and serialized models are parameters as
  well. A call that changes its receiver returns the changed object. The flag
  \<^verbatim>\<open>ai_edge_config.Config.use_torch_xla\<close>, which the decorator of each test
  reads, is a parameter too.
\<close>

record ('c, 'm) model_module =
  mod_get_fake_model_config :: "error + 'c"
  mod_Model :: "'c \<Rightarrow> error + 'm"
  mod_eval :: "'m \<Rightarrow> error + 'm"

record 'k sample_kwargs =
  tokens :: "int tensor"
  input_pos :: "int tensor"
  kv_cache :: 'k

record 'b InterpreterWithCustomOps =
  custom_op_registerers :: "string list"
  model_content :: 'b
  experimental_default_delegate_latest_features :: bool

record ('c, 'm, 'k, 'e, 'b) library =
  use_torch_xla :: bool
  from_model_config :: "'c \<Rightarrow> error + 'k"
  convert :: "'m \<Rightarrow> 'k sample_kwargs \<Rightarrow> error + 'e"
  signature_convert :: "string \<Rightarrow> 'm \<Rightarrow> 'k sample_kwargs \<Rightarrow> error + 'e"
  tflite_model :: "'e \<Rightarrow> error + 'b"
  set_interpreter_builder :: "'e \<Rightarrow> 'b InterpreterWithCustomOps \<Rightarrow> error + 'e"
  compare_tflite_torch ::
    "'e \<Rightarrow> 'm \<Rightarrow> int tensor \<Rightarrow> int tensor \<Rightarrow> 'k \<Rightarrow> string \<Rightarrow> rat \<Rightarrow> rat \<Rightarrow> error + bool"

text \<open>
  \<^verbatim>\<open>setUp\<close>: the interpreter builder is a closure that will construct an
  interpreter; it is represented by the arguments it constructs it with.
\<close>

definition interpreter_builder :: "'b \<Rightarrow> 'b InterpreterWithCustomOps" where
  "interpreter_builder tflite =
     \<lparr>custom_op_registerers = [''GenAIOpsRegisterer''], model_content = tflite,
      experimental_default_delegate_latest_features = True\<rparr>"

definition assertTrue :: "bool \<Rightarrow> error + unit" where
  "assertTrue b = (if b then Inr () else Inl AssertionError)"

text \<open>
  The decorator \<^verbatim>\<open>@googletest.skipIf(condition, reason)\<close>: when the condition
  holds, the decorated function raises \<^verbatim>\<open>SkipTest\<close> and runs none of its
  body; otherwise it is the function as written.
\<close>

definition skipIf :: "bool \<Rightarrow> error + unit \<Rightarrow> error + unit" where
  "skipIf condition test = (if condition then Inl SkipTest else test)"

subsection \<open>The three tests\<close>

text \<open>
  Each test is modelled in two parts: the statements that build the model and the sample
  inputs, and the test itself under its decorator, which goes on to convert and compare
  unless it is skipped.
\<close>

definition test_gemma_inputs ::
  "('c, 'm, 'k, 'e, 'b) library \<Rightarrow> ('c, 'm) model_module \<Rightarrow>
     error + 'c \<times> 'm \<times> int tensor \<times> int tensor \<times> 'k" where
  "test_gemma_inputs lib gemma =
     bind (mod_get_fake_model_config gemma) (\<lambda>config.
     bind (mod_Model gemma config) (\<lambda>model.
     let idx = from_numpy_array [[1, 2, 3, 4]];
         tokens = torch_full [1, 10] 0
     in bind (setitem_row_prefix tokens 0 4 idx) (\<lambda>tokens.
        let input_pos = torch_arange 0 10
        in bind (from_model_config lib config) (\<lambda>kv.
           Inr (config, model, tokens, input_pos, kv)))))"

definition test_gemma ::
  "('c, 'm, 'k, 'e, 'b) library \<Rightarrow> ('c, 'm) model_module \<Rightarrow> error + unit" where
  "test_gemma lib gemma =
     skipIf (use_torch_xla lib)
       (bind (test_gemma_inputs lib gemma) (\<lambda>(config, model, tokens, input_pos, kv).
       bind (convert lib model \<lparr>tokens = tokens, input_pos = input_pos, kv_cache = kv\<rparr>)
         (\<lambda>edge_model.
       bind (tflite_model lib edge_model) (\<lambda>tflite.
       bind (set_interpreter_builder lib edge_model (interpreter_builder tflite)) (\<lambda>edge_model.
       bind (compare_tflite_torch lib edge_model model tokens input_pos kv
               ''serving_default'' (1 / 100) (1 / 100000)) assertTrue)))))"

definition test_gemma2_inputs ::
  "('c, 'm, 'k, 'e, 'b) library \<Rightarrow> ('c, 'm) model_module \<Rightarrow>
     error + 'c \<times> 'm \<times> int tensor \<times> int tensor \<times> 'k" where
  "test_gemma2_inputs lib gemma2 =
     bind (mod_get_fake_model_config gemma2) (\<lambda>config.
     bind (mod_Model gemma2 config) (\<lambda>model.
     bind (mod_eval gemma2 model) (\<lambda>model.
     let idx = from_numpy_array [[1, 2, 3, 4]];
         prefill_tokens = torch_full [1, 10] 0
     in bind (setitem_row_prefix prefill_tokens 0 4 idx) (\<lambda>prefill_tokens.
        let prefill_input_pos = torch_arange 0 10
        in bind (from_model_config lib config) (\<lambda>kv.
           Inr (config, model, prefill_tokens, prefill_input_pos, kv))))))"

definition test_gemma2 ::
  "('c, 'm, 'k, 'e, 'b) library \<Rightarrow> ('c, 'm) model_module \<Rightarrow> error + unit" where
  "test_gemma2 lib gemma2 =
     skipIf (use_torch_xla lib)
       (bind (test_gemma2_inputs lib gemma2)
         (\<lambda>(config, model, prefill_tokens, prefill_input_pos, kv).
       bind (signature_convert lib ''prefill'' model
               \<lparr>tokens = prefill_tokens, input_pos = prefill_input_pos, kv_cache = kv\<rparr>)
         (\<lambda>edge_model.
       bind (tflite_model lib edge_model) (\<lambda>tflite.
       bind (set_interpreter_builder lib edge_model (interpreter_builder tflite)) (\<lambda>edge_model.
       bind (compare_tflite_torch lib edge_model model prefill_tokens prefill_input_pos kv
               ''prefill'' (1 / 10) (1 / 1000)) assertTrue)))))"

definition test_phi2_inputs ::
  "('c, 'm, 'k, 'e, 'b) library \<Rightarrow> ('c, 'm) model_module \<Rightarrow>
     error + 'c \<times> 'm \<times> int tensor \<times> int tensor \<times> 'k" where
  "test_phi2_inputs lib phi2 =
     bind (mod_get_fake_model_config phi2) (\<lambda>config.
     bind (mod_Model phi2 config) (\<lambda>model.
     bind (mod_eval phi2 model) (\<lambda>pytorch_model.
     let idx = from_numpy_array [[1, 2, 3, 4]];
         tokens = torch_full [1, 10] 0
     in bind (setitem_row_prefix tokens 0 4 idx) (\<lambda>tokens.
        let input_pos = torch_arange 0 10
        in bind (from_model_config lib config) (\<lambda>kv.
           Inr (config, pytorch_model, tokens, input_pos, kv))))))"

definition test_phi2 ::
  "('c, 'm, 'k, 'e, 'b) library \<Rightarrow> ('c, 'm) model_module \<Rightarrow> error + unit" where
  "test_phi2 lib phi2 =
     skipIf (use_torch_xla lib)
       (bind (test_phi2_inputs lib phi2) (\<lambda>(config, pytorch_model, tokens, input_pos, kv).
       bind (convert lib pytorch_model \<lparr>tokens = tokens, input_pos = input_pos, kv_cache = kv\<rparr>)
         (\<lambda>edge_model.
       bind (tflite_model lib edge_model) (\<lambda>tflite.
       bind (set_interpreter_builder lib edge_model (interpreter_builder tflite)) (\<lambda>edge_model.
       bind (compare_tflite_torch lib edge_model pytorch_model tokens input_pos kv
               ''serving_default'' (1 / 1000) (1 / 1000)) assertTrue)))))"

subsection \<open>A library and a model module to run the tests on\<close>

text \<open>
  Configs, models and caches are numbers; the converted model is the pair of the model
  and the cache it was converted with. The comparison returns the given answer when the
  converted model is the one made from the model and the cache it is compared with.
\<close>

definition sample_library :: "bool \<Rightarrow> bool \<Rightarrow> (nat, nat, nat, nat \<times> nat, nat) library" where
  "sample_library xla answer =
     \<lparr>use_torch_xla = xla,
      from_model_config = \<lambda>c. Inr (c + 1),
      convert = \<lambda>m s. Inr (m, kv_cache s),
      signature_convert = \<lambda>n m s. Inr (m, kv_cache s),
      tflite_model = \<lambda>e. Inr (fst e),
      set_interpreter_builder = \<lambda>e b. Inr e,
      compare_tflite_torch = \<lambda>e m t p k n a r. Inr (answer \<and> e = (m, k))\<rparr>"

definition sample_module :: "(nat, nat) model_module" where
  "sample_module =
     \<lparr>mod_get_fake_model_config = Inr 3, mod_Model = \<lambda>c. Inr (c * 2),
      mod_eval = \<lambda>m. Inr m\<rparr>"

section \<open>Properties\<close>

subsection \<open>The store\<close>

lemma bind_Inr [simp]: "bind (Inr x) f = f x"
  by (simp add: bind_def)

lemma bind_Inl [simp]: "bind (Inl e) f = Inl e"
  by (simp add: bind_def)

lemma lookup_Nil [simp]: "lookup [] r = None"
  by (simp add: lookup_def)

lemma lookup_Cons [simp]: "lookup (x # xs) r = (if r = 0 then Some x else lookup xs (r - 1))"
  by (cases r) (simp_all add: lookup_def)

lemma lookup_append [simp]:
  "lookup (h @ xs) r = (if r < length h then lookup h r else lookup xs (r - length h))"
  by (auto simp: lookup_def nth_append)

subsection \<open>The stores the builders leave\<close>

text \<open>
  Each builder appends six objects to the store it starts from and returns the reference
  of the last one, the model configuration.
\<close>

lemma get_3b_model_config_heap:
  "get_3b_model_config arg h =
     (length h + 5,
      h @ [OAttentionConfig
             \<lparr>num_heads = 16, head_dim = 128, num_query_groups = 2, rotary_base = 1000000,
              rotary_percentage = 1, qkv_use_bias = True\<rparr>,
           OActivationConfig \<lparr>act_type = ActivationType ''SILU''\<rparr>,
           OFeedForwardConfig
             \<lparr>ff_type = FeedForwardType ''GATED'', activation = length h + 1,
              intermediate_size = 11008\<rparr>,
           ONormalizationConfig
             \<lparr>norm_type = NormalizationType ''RMS_NORM'', epsilon = 1 / 1000000\<rparr>,
           OTransformerBlockConfig
             \<lparr>attn_config = length h, ff_config = length h + 2,
              pre_attention_norm_config = length h + 3,
              post_attention_norm_config = length h + 3\<rparr>,
           OModelConfig
             \<lparr>vocab_size = 151936, num_layers = 36, max_seq_len = 32768, embedding_dim = 2048,
              kv_cache_max_len = (case arg of None \<Rightarrow> 1024 | Some k \<Rightarrow> k),
              block_configs = length h + 4,
              final_norm_config = length h + 3, enable_hlfb = True\<rparr>])"
  by (simp add: get_3b_model_config_def new_def Let_def)

lemmas getters = get_ModelConfig_def get_TransformerBlockConfig_def get_FeedForwardConfig_def
    get_ActivationConfig_def get_AttentionConfig_def get_NormalizationConfig_def

lemmas updaters = upd_AttentionConfig_def upd_FeedForwardConfig_def upd_ModelConfig_def
    upd_NormalizationConfig_def

lemma get_1_5b_model_config_heap:
  "get_1_5b_model_config arg h =
     Inr (length h + 5,
      h @ [OAttentionConfig
             \<lparr>num_heads = 12, head_dim = 128, num_query_groups = 2, rotary_base = 1000000,
              rotary_percentage = 1, qkv_use_bias = True\<rparr>,
           OActivationConfig \<lparr>act_type = ActivationType ''SILU''\<rparr>,
           OFeedForwardConfig
             \<lparr>ff_type = FeedForwardType ''GATED'', activation = length h + 1,
              intermediate_size = 8960\<rparr>,
           ONormalizationConfig
             \<lparr>norm_type = NormalizationType ''RMS_NORM'', epsilon = 1 / 1000000\<rparr>,
           OTransformerBlockConfig
             \<lparr>attn_config = length h, ff_config = length h + 2,
              pre_attention_norm_config = length h + 3,
              post_attention_norm_config = length h + 3\<rparr>,
           OModelConfig
             \<lparr>vocab_size = 151936, num_layers = 28, max_seq_len = 32768, embedding_dim = 1536,
              kv_cache_max_len = (case arg of None \<Rightarrow> 1024 | Some k \<Rightarrow> k),
              block_configs = length h + 4,
              final_norm_config = length h + 3, enable_hlfb = True\<rparr>])"
  by (simp add: get_1_5b_model_config_def get_3b_model_config_heap block_config_def getters updaters
      list_update_append)


lemma get_0_5b_model_config_heap:
  "get_0_5b_model_config arg h =
     Inr (length h + 5,
      h @ [OAttentionConfig
             \<lparr>num_heads = 14, head_dim = 64, num_query_groups = 2, rotary_base = 1000000,
              rotary_percentage = 1, qkv_use_bias = True\<rparr>,
           OActivationConfig \<lparr>act_type = ActivationType ''SILU''\<rparr>,
           OFeedForwardConfig
             \<lparr>ff_type = FeedForwardType ''GATED'', activation = length h + 1,
              intermediate_size = 4864\<rparr>,
           ONormalizationConfig
             \<lparr>norm_type = NormalizationType ''RMS_NORM'', epsilon = 1 / 1000000\<rparr>,
           OTransformerBlockConfig
             \<lparr>attn_config = length h, ff_config = length h + 2,
              pre_attention_norm_config = length h + 3,
              post_attention_norm_config = length h + 3\<rparr>,
           OModelConfig
             \<lparr>vocab_size = 151936, num_layers = 24, max_seq_len = 32768, embedding_dim = 896,
              kv_cache_max_len = (case arg of None \<Rightarrow> 1024 | Some k \<Rightarrow> k),
              block_configs = length h + 4,
              final_norm_config = length h + 3, enable_hlfb = True\<rparr>])"
  by (simp add: get_0_5b_model_config_def get_3b_model_config_heap block_config_def getters updaters
      list_update_append)

lemma get_fake_model_config_heap:
  "list_all (\<lambda>kw. fst kw = ''kv_cache_max_len'') kwargs \<Longrightarrow>
   get_fake_model_config kwargs h =
     Inr (length h + 5,
      h @ [OAttentionConfig
             \<lparr>num_heads = 16, head_dim = 128, num_query_groups = 2, rotary_base = 1000000,
              rotary_percentage = 1, qkv_use_bias = True\<rparr>,
           OActivationConfig \<lparr>act_type = ActivationType ''SILU''\<rparr>,
           OFeedForwardConfig
             \<lparr>ff_type = FeedForwardType ''GATED'', activation = length h + 1,
              intermediate_size = 64\<rparr>,
           ONormalizationConfig
             \<lparr>norm_type = NormalizationType ''RMS_NORM'', epsilon = 1 / 1000000\<rparr>,
           OTransformerBlockConfig
             \<lparr>attn_config = length h, ff_config = length h + 2,
              pre_attention_norm_config = length h + 3,
              post_attention_norm_config = length h + 3\<rparr>,
           OModelConfig
             \<lparr>vocab_size = 128, num_layers = 2, max_seq_len = 32768, embedding_dim = 2048,
              kv_cache_max_len = (case map_of kwargs ''kv_cache_max_len'' of None \<Rightarrow> 1024 | Some k \<Rightarrow> k),
              block_configs = length h + 4,
              final_norm_config = length h + 3, enable_hlfb = True\<rparr>])"
  by (simp add: get_fake_model_config_def call_get_3b_model_config_def get_3b_model_config_heap
      block_config_def getters updaters list_update_append)

lemma get_fake_model_config_TypeError:
  "\<not> list_all (\<lambda>kw. fst kw = ''kv_cache_max_len'') kwargs \<Longrightarrow>
   get_fake_model_config kwargs h = Inl TypeError"
  by (simp add: get_fake_model_config_def call_get_3b_model_config_def)

lemma read_ModelConfig_built:
  assumes "ra = length h" "ract = length h + 1" "rf = length h + 2" "rn = length h + 3"
    "rb = length h + 4" "c = length h + 5"
  shows "read_ModelConfig
     (h @ [OAttentionConfig a, OActivationConfig act,
           OFeedForwardConfig \<lparr>ff_type = t, activation = ract, intermediate_size = i\<rparr>,
           ONormalizationConfig n,
           OTransformerBlockConfig
             \<lparr>attn_config = ra, ff_config = rf,
              pre_attention_norm_config = rn, post_attention_norm_config = rn\<rparr>,
           OModelConfig
             \<lparr>vocab_size = vs, num_layers = nl, max_seq_len = ms, embedding_dim = ed,
              kv_cache_max_len = kv, block_configs = rb,
              final_norm_config = rn, enable_hlfb = hl\<rparr>]) c =
   Inr \<lparr>vocab_size = vs, num_layers = nl, max_seq_len = ms, embedding_dim = ed,
        kv_cache_max_len = kv,
        block_configs =
          \<lparr>attn_config = a,
           ff_config = \<lparr>ff_type = t, activation = act, intermediate_size = i\<rparr>,
           pre_attention_norm_config = n, post_attention_norm_config = n\<rparr>,
        final_norm_config = n, enable_hlfb = hl\<rparr>"
  by (simp add: assms read_ModelConfig_def read_TransformerBlockConfig_def
      read_FeedForwardConfig_def getters)

lemma read_built_Inr [simp]: "read_built (Inr (c, h)) = read_ModelConfig h c"
  by (simp add: read_built_def)

subsection \<open>The configurations\<close>

text \<open>
  Claim C2. Whatever the store and the argument, the configuration that
  \<open>get_3b_model_config\<close> returns reads as: vocabulary 151936, 36 layers, maximal
  sequence length 32768, embedding dimension 2048, KV cache length the argument (1024 when
  it is left out), HLFB enabled; one block with 16 heads of dimension 128, 2 query groups,
  rotary base 1000000, rotary percentage 1.0, biased QKV projections, a gated feed-forward
  with SILU activation and intermediate size 11008; RMS normalization with epsilon 1e-06
  before and after attention and as the final norm.
\<close>

theorem get_3b_model_config_value:
  "read_built (Inr (get_3b_model_config arg h)) =
     Inr \<lparr>vocab_size = 151936, num_layers = 36, max_seq_len = 32768, embedding_dim = 2048,
          kv_cache_max_len = (case arg of None \<Rightarrow> 1024 | Some k \<Rightarrow> k),
          block_configs =
            \<lparr>attn_config =
               \<lparr>num_heads = 16, head_dim = 128, num_query_groups = 2, rotary_base = 1000000,
                rotary_percentage = 1, qkv_use_bias = True\<rparr>,
             ff_config =
               \<lparr>ff_type = FeedForwardType ''GATED'',
                activation = \<lparr>act_type = ActivationType ''SILU''\<rparr>,
                intermediate_size = 11008\<rparr>,
             pre_attention_norm_config =
               \<lparr>norm_type = NormalizationType ''RMS_NORM'', epsilon = 1 / 1000000\<rparr>,
             post_attention_norm_config =
               \<lparr>norm_type = NormalizationType ''RMS_NORM'', epsilon = 1 / 1000000\<rparr>\<rparr>,
          final_norm_config =
            \<lparr>norm_type = NormalizationType ''RMS_NORM'', epsilon = 1 / 1000000\<rparr>,
          enable_hlfb = True\<rparr>"
  by (simp add: get_3b_model_config_heap read_ModelConfig_built)

text \<open>
  Claim C3. With the same argument and store, the configuration of
  \<open>get_1_5b_model_config\<close> is the 3B configuration with the number of heads 12, the
  intermediate size 8960, 28 layers and embedding dimension 1536, and that of
  \<open>get_0_5b_model_config\<close> is the 3B configuration with 14 heads of dimension 64,
  intermediate size 4864, 24 layers and embedding dimension 896. Every other field has its
  3B value, and each of the fields named has another value in the 3B configuration.
\<close>

theorem smaller_configs_differ_in_listed_fields:
  "\<exists>v3. read_built (Inr (get_3b_model_config arg h)) = Inr v3 \<and>
     read_built (get_1_5b_model_config arg h) =
       Inr (v3\<lparr>num_layers := 28, embedding_dim := 1536,
               block_configs := (block_configs v3)
                 \<lparr>attn_config := (attn_config (block_configs v3))\<lparr>num_heads := 12\<rparr>,
                  ff_config := (ff_config (block_configs v3))\<lparr>intermediate_size := 8960\<rparr>\<rparr>\<rparr>) \<and>
     read_built (get_0_5b_model_config arg h) =
       Inr (v3\<lparr>num_layers := 24, embedding_dim := 896,
               block_configs := (block_configs v3)
                 \<lparr>attn_config := (attn_config (block_configs v3))\<lparr>num_heads := 14, head_dim := 64\<rparr>,
                  ff_config := (ff_config (block_configs v3))\<lparr>intermediate_size := 4864\<rparr>\<rparr>\<rparr>) \<and>
     num_layers v3 = 36 \<and> embedding_dim v3 = 2048 \<and>
     num_heads (attn_config (block_configs v3)) = 16 \<and>
     head_dim (attn_config (block_configs v3)) = 128 \<and>
     intermediate_size (ff_config (block_configs v3)) = 11008 \<and>
     kv_cache_max_len v3 = (case arg of None \<Rightarrow> 1024 | Some k \<Rightarrow> k)"
  by (simp add: get_3b_model_config_heap get_1_5b_model_config_heap get_0_5b_model_config_heap
      read_ModelConfig_built)

text \<open>
  Claim C4. For keyword arguments that \<open>get_3b_model_config\<close> accepts, the
  configuration of \<open>get_fake_model_config\<close> is the 3B configuration for those
  arguments with vocabulary 128, 2 layers and intermediate size 64, each of which differs
  from the 3B value; every other field is as in the 3B configuration, among them the
  embedding dimension 2048, 16 heads of dimension 128 and the maximal sequence length
  32768.
\<close>

theorem get_fake_model_config_value:
  assumes "call_get_3b_model_config kwargs h = Inr res"
  shows "\<exists>v3. read_built (Inr res) = Inr v3 \<and>
     read_built (get_fake_model_config kwargs h) =
       Inr (v3\<lparr>vocab_size := 128, num_layers := 2,
               block_configs := (block_configs v3)
                 \<lparr>ff_config := (ff_config (block_configs v3))\<lparr>intermediate_size := 64\<rparr>\<rparr>\<rparr>) \<and>
     vocab_size v3 = 151936 \<and> num_layers v3 = 36 \<and>
     intermediate_size (ff_config (block_configs v3)) = 11008 \<and>
     embedding_dim v3 = 2048 \<and> max_seq_len v3 = 32768 \<and>
     num_heads (attn_config (block_configs v3)) = 16 \<and>
     head_dim (attn_config (block_configs v3)) = 128"
proof -
  from assms have ok: "list_all (\<lambda>kw. fst kw = ''kv_cache_max_len'') kwargs"
    and res: "res = get_3b_model_config (map_of kwargs ''kv_cache_max_len'') h"
    by (auto simp: call_get_3b_model_config_def split: if_splits)
  show ?thesis
    by (simp add: res get_3b_model_config_heap get_fake_model_config_heap [OF ok]
        read_ModelConfig_built)
qed

theorem get_fake_model_config_value_witness:
  "call_get_3b_model_config [(''kv_cache_max_len'', 256)] [] =
     Inr (get_3b_model_config (Some 256) []) \<and>
   (\<exists>v3. read_built (Inr (get_3b_model_config (Some 256) [])) = Inr v3 \<and>
     read_built (get_fake_model_config [(''kv_cache_max_len'', 256)] []) =
       Inr (v3\<lparr>vocab_size := 128, num_layers := 2,
               block_configs := (block_configs v3)
                 \<lparr>ff_config := (ff_config (block_configs v3))\<lparr>intermediate_size := 64\<rparr>\<rparr>\<rparr>) \<and>
     vocab_size v3 = 151936 \<and> num_layers v3 = 36 \<and>
     intermediate_size (ff_config (block_configs v3)) = 11008 \<and>
     embedding_dim v3 = 2048 \<and> max_seq_len v3 = 32768 \<and>
     num_heads (attn_config (block_configs v3)) = 16 \<and>
     head_dim (attn_config (block_configs v3)) = 128)"
proof -
  have call: "call_get_3b_model_config [(''kv_cache_max_len'', 256)] [] =
      Inr (get_3b_model_config (Some 256) [])"
    by (simp add: call_get_3b_model_config_def)
  from call get_fake_model_config_value [OF call] show ?thesis
    by (rule conjI)
qed

subsection \<open>One normalization object in three places\<close>

lemma norms_shared_built:
  assumes shape: "h' = h @ [oa, oact, off, ONormalizationConfig n,
           OTransformerBlockConfig
             \<lparr>attn_config = ra, ff_config = rf,
              pre_attention_norm_config = length h + 3,
              post_attention_norm_config = length h + 3\<rparr>,
           OModelConfig
             \<lparr>vocab_size = vs, num_layers = nl, max_seq_len = ms, embedding_dim = ed,
              kv_cache_max_len = kv, block_configs = length h + 4,
              final_norm_config = length h + 3, enable_hlfb = hl\<rparr>]"
    and config: "config = length h + 5"
  shows "norm_ref h' config p = Inr (length h + 3)"
    and "\<exists>h''. set_epsilon config p e h' = Inr h'' \<and> get_epsilon h'' config q = Inr e"
proof -
  show ref: "norm_ref h' config p = Inr (length h + 3)" for p
    by (cases p) (simp_all add: shape config norm_ref_def block_config_def getters)
  have "get_epsilon (h'[length h + 3 := ONormalizationConfig (n\<lparr>epsilon := e\<rparr>)]) config q = Inr e"
    by (cases q) (simp_all add: shape config get_epsilon_def norm_ref_def block_config_def getters
        list_update_append)
  moreover have "set_epsilon config p e h' =
      Inr (h'[length h + 3 := ONormalizationConfig (n\<lparr>epsilon := e\<rparr>)])"
    by (simp add: set_epsilon_def ref upd_NormalizationConfig_def) (simp add: shape getters)
  ultimately show "\<exists>h''. set_epsilon config p e h' = Inr h'' \<and> get_epsilon h'' config q = Inr e"
    by simp
qed

text \<open>
  Claim C8. In the configuration returned by any of the four builders, the normalization
  config before attention, the one after attention and the final one are one object of
  the store: the three places hold the same reference, and an assignment to
  \<open>epsilon\<close> through any of the places is read back through each of them.
\<close>

theorem norm_config_shared:
  assumes "res = Inr (get_3b_model_config arg h) \<or> res = get_1_5b_model_config arg h \<or>
     res = get_0_5b_model_config arg h \<or> res = get_fake_model_config kwargs h"
    and "res = Inr (config, h')"
  shows "\<exists>n. (\<forall>p. norm_ref h' config p = Inr n) \<and>
     (\<forall>p q e. \<exists>h''. set_epsilon config p e h' = Inr h'' \<and> get_epsilon h'' config q = Inr e)"
proof -
  let ?shape = "\<exists>oa oact off n ra rf vs nl ms ed kv hl.
      h' = h @ [oa, oact, off, ONormalizationConfig n,
           OTransformerBlockConfig
             \<lparr>attn_config = ra, ff_config = rf,
              pre_attention_norm_config = length h + 3,
              post_attention_norm_config = length h + 3\<rparr>,
           OModelConfig
             \<lparr>vocab_size = vs, num_layers = nl, max_seq_len = ms, embedding_dim = ed,
              kv_cache_max_len = kv, block_configs = length h + 4,
              final_norm_config = length h + 3, enable_hlfb = hl\<rparr>] \<and> config = length h + 5"
  from assms consider
      (b3) "get_3b_model_config arg h = (config, h')"
    | (b1_5) "get_1_5b_model_config arg h = Inr (config, h')"
    | (b0_5) "get_0_5b_model_config arg h = Inr (config, h')"
    | (fake) "get_fake_model_config kwargs h = Inr (config, h')"
    by auto
  then have ?shape
  proof cases
    case b3
    then show ?thesis unfolding get_3b_model_config_heap by blast
  next
    case b1_5
    then show ?thesis unfolding get_1_5b_model_config_heap by blast
  next
    case b0_5
    then show ?thesis unfolding get_0_5b_model_config_heap by blast
  next
    case fake
    then have "list_all (\<lambda>kw. fst kw = ''kv_cache_max_len'') kwargs"
      using get_fake_model_config_TypeError [of kwargs h] by auto
    from fake [unfolded get_fake_model_config_heap [OF this]] show ?thesis by blast
  qed
  then obtain oa oact off n ra rf vs nl ms ed kv hl where
    shape: "h' = h @ [oa, oact, off, ONormalizationConfig n,
           OTransformerBlockConfig
             \<lparr>attn_config = ra, ff_config = rf,
              pre_attention_norm_config = length h + 3,
              post_attention_norm_config = length h + 3\<rparr>,
           OModelConfig
             \<lparr>vocab_size = vs, num_layers = nl, max_seq_len = ms, embedding_dim = ed,
              kv_cache_max_len = kv, block_configs = length h + 4,
              final_norm_config = length h + 3, enable_hlfb = hl\<rparr>]"
    and config: "config = length h + 5"
    by blast
  have "\<forall>p. norm_ref h' config p = Inr (length h + 3)"
    using norms_shared_built(1) [OF shape config] by simp
  moreover have "\<forall>p q e. \<exists>h''. set_epsilon config p e h' = Inr h'' \<and>
      get_epsilon h'' config q = Inr e"
    using norms_shared_built(2) [OF shape config] by simp
  ultimately show ?thesis
    by (intro exI [of _ "length h + 3"] conjI)
qed


theorem norm_config_shared_witness:
  "\<exists>n. (\<forall>p. norm_ref (snd (get_3b_model_config None [])) 5 p = Inr n) \<and>
     (\<forall>p q e. \<exists>h''. set_epsilon 5 p e (snd (get_3b_model_config None [])) = Inr h'' \<and>
        get_epsilon h'' 5 q = Inr e)"
proof -
  have "Inr (get_3b_model_config None []) = Inr (5, snd (get_3b_model_config None []))"
    by (simp add: get_3b_model_config_heap)
  from norm_config_shared [OF disjI1 this, OF refl] show ?thesis .
qed

subsection \<open>Instances, attribute paths and tensors\<close>

lemma lookup_update: "lookup (h[r := v]) r' = (if r' = r \<and> r < length h then Some v else lookup h r')"
  by (auto simp: lookup_def)

lemma lookup_Some_length: "lookup h r = Some v \<Longrightarrow> r < length h"
  by (simp add: lookup_def split: if_splits)

text \<open>
  Claim C9. When \<^verbatim>\<open>tiny_llama.TENSOR_NAMES\<close> refers to an instance, the two
  module-level statements succeed and bind the module's own name to a new object. On that
  object \<^verbatim>\<open>lm_head\<close> is \<^verbatim>\<open>None\<close> and every other attribute is as on
  the original. Every attribute of the original, \<^verbatim>\<open>lm_head\<close> included, and
  every other object of the store are as before.
\<close>

theorem qwen_TENSOR_NAMES_copy:
  assumes "lookup h r = Some (OInstance attrs)"
  shows "\<exists>t h'. qwen_TENSOR_NAMES r h = Inr (t, h') \<and> t \<noteq> r \<and>
     getattr h' t ''lm_head'' = Inr PyNone \<and>
     (\<forall>name. name \<noteq> ''lm_head'' \<longrightarrow> getattr h' t name = getattr h r name) \<and>
     (\<forall>name. getattr h' r name = getattr h r name) \<and>
     (\<forall>r'. r' \<noteq> t \<longrightarrow> lookup h' r' = lookup h r')"
proof -
  from assms have r: "r < length h"
    by (rule lookup_Some_length)
  let ?h' = "h @ [OInstance (AList.update ''lm_head'' PyNone attrs)]"
  have run: "qwen_TENSOR_NAMES r h = Inr (length h, ?h')"
    using assms r by (simp add: qwen_TENSOR_NAMES_def copy_copy_def new_def setattr_def)
  have old: "lookup ?h' r' = lookup h r'" if "r' \<noteq> length h" for r'
    using that by (auto simp: lookup_def nth_append)
  have "getattr ?h' (length h) name = (if name = ''lm_head'' then Inr PyNone else getattr h r name)"
    for name
    using assms by (simp add: getattr_def update_conv')
  moreover have "getattr ?h' r name = getattr h r name" for name
    using r old [of r] by (simp add: getattr_def)
  ultimately show ?thesis
    using run r old by auto
qed


theorem qwen_TENSOR_NAMES_copy_witness:
  "lookup [OInstance [(''embedding'', PyStr ''model.embed_tokens''),
                      (''lm_head'', PyStr ''lm_head'')]] 0 =
     Some (OInstance [(''embedding'', PyStr ''model.embed_tokens''),
                      (''lm_head'', PyStr ''lm_head'')]) \<and>
   (\<exists>t h'. qwen_TENSOR_NAMES 0
        [OInstance [(''embedding'', PyStr ''model.embed_tokens''),
                    (''lm_head'', PyStr ''lm_head'')]] = Inr (t, h') \<and> t \<noteq> 0 \<and>
     getattr h' t ''lm_head'' = Inr PyNone \<and>
     getattr h' t ''embedding'' = Inr (PyStr ''model.embed_tokens'') \<and>
     getattr h' 0 ''lm_head'' = Inr (PyStr ''lm_head''))"
proof -
  let ?h = "[OInstance [(''embedding'', PyStr ''model.embed_tokens''),
                        (''lm_head'', PyStr ''lm_head'')]]"
  have l: "lookup ?h 0 = Some (OInstance [(''embedding'', PyStr ''model.embed_tokens''),
                      (''lm_head'', PyStr ''lm_head'')])"
    by simp
  from qwen_TENSOR_NAMES_copy [OF l] obtain t h' where
    "qwen_TENSOR_NAMES 0 ?h = Inr (t, h')" "t \<noteq> 0" "getattr h' t ''lm_head'' = Inr PyNone"
    "\<forall>name. name \<noteq> ''lm_head'' \<longrightarrow> getattr h' t name = getattr ?h 0 name"
    "\<forall>name. getattr h' 0 name = getattr ?h 0 name"
    by blast
  moreover have "getattr ?h 0 ''embedding'' = Inr (PyStr ''model.embed_tokens'')"
    "getattr ?h 0 ''lm_head'' = Inr (PyStr ''lm_head'')"
    by (simp_all add: getattr_def)
  ultimately show ?thesis
    using l by (intro conjI exI [of _ t] exI [of _ h']) simp_all
qed

subsection \<open>The constructor of Qwen\<close>

lemma setattr_InrD:
  assumes "setattr target name v h = Inr h'"
  obtains r attrs where "target = PyRef r" "lookup h r = Some (OInstance attrs)"
    "h' = h[r := OInstance (AList.update name v attrs)]"
  using assms by (auto simp: setattr_def split: pyval.splits option.splits obj.splits)

lemma getattr_setattr:
  assumes "setattr (PyRef r) name v h = Inr h'"
  shows "getattr h' r' name' = (if r' = r \<and> name' = name then Inr v else getattr h r' name')"
proof -
  from assms obtain attrs where l: "lookup h r = Some (OInstance attrs)"
    and h': "h' = h[r := OInstance (AList.update name v attrs)]"
    by (auto elim: setattr_InrD)
  from l have "r < length h" by (rule lookup_Some_length)
  then show ?thesis
    using l by (auto simp: h' getattr_def lookup_update update_conv')
qed

lemma lookup_setattr:
  assumes "setattr (PyRef r) name v h = Inr h'" "r' \<noteq> r"
  shows "lookup h' r' = lookup h r'"
  using assms by (auto elim!: setattr_InrD simp: lookup_update)

lemma length_setattr:
  assumes "setattr target name v h = Inr h'"
  shows "length h' = length h"
  using assms by (auto elim!: setattr_InrD)

lemma getattr_path_append:
  "getattr_path h v (ns @ ms) = bind (getattr_path h v ns) (\<lambda>v'. getattr_path h v' ms)"
proof (induction ns arbitrary: v)
  case Nil
  show ?case by simp
next
  case (Cons n ns)
  show ?case
  proof (cases v)
    case (PyRef r)
    then show ?thesis
      using Cons.IH by (cases "getattr h r n") simp_all
  qed simp_all
qed

lemma getattr_path_setattr:
  assumes "setattr (PyRef r) name v h = Inr h'" "name \<notin> set ns"
  shows "getattr_path h' x ns = getattr_path h x ns"
  using assms(2)
proof (induction ns arbitrary: x)
  case Nil
  show ?case by simp
next
  case (Cons n ns)
  then have "getattr h' r' n = getattr h r' n" for r'
    using getattr_setattr [OF assms(1)] by auto
  with Cons show ?case
    by (cases x) (simp_all add: bind_def split: sum.splits)
qed


lemma write_tensor_InrD:
  assumes "write_tensor d xs h = Inr h'"
  obtains r t where "d = PyRef r" "lookup h r = Some (OTensor t)"
    "h' = h[r := OTensor (t\<lparr>elems := xs\<rparr>)]"
  using assms by (auto simp: write_tensor_def split: pyval.splits option.splits obj.splits)

lemma getattr_write_tensor:
  assumes "write_tensor d xs h = Inr h'"
  shows "getattr h' r name = getattr h r name"
  using assms by (auto elim!: write_tensor_InrD simp: getattr_def lookup_update)

lemma getattr_path_write_tensor:
  assumes "write_tensor d xs h = Inr h'"
  shows "getattr_path h' x ns = getattr_path h x ns"
proof (induction ns arbitrary: x)
  case Nil
  show ?case by simp
next
  case (Cons n ns)
  then show ?case
    by (cases x) (simp_all add: getattr_write_tensor [OF assms] bind_def split: sum.splits)
qed

lemma read_tensor_write_tensor:
  assumes "write_tensor d xs h = Inr h'"
  shows "\<exists>t. read_tensor h' d = Inr t \<and> elems t = xs"
proof -
  from assms obtain r t where d: "d = PyRef r" and l: "lookup h r = Some (OTensor t)"
    and h': "h' = h[r := OTensor (t\<lparr>elems := xs\<rparr>)]"
    by (rule write_tensor_InrD)
  from l have "r < length h" by (rule lookup_Some_length)
  then show ?thesis
    by (simp add: d h' read_tensor_def lookup_update)
qed

lemma shared_data_shared_weight:
  assumes a: "getattr_path h (PyRef model) [layer, ''weight'', ''data''] = Inr d"
    and b: "getattr_path h (PyRef model) [layer', ''weight'', ''data''] = Inr d"
    and w: "overwrite_weight model layer xs h = Inr h'"
  shows "\<exists>t. weight_of h' model layer' = Inr t \<and> elems t = xs"
proof -
  from a w have wr: "write_tensor d xs h = Inr h'"
    by (simp add: overwrite_weight_def)
  have "getattr_path h' (PyRef model) [layer', ''weight'', ''data''] = Inr d"
    using b by (simp only: getattr_path_write_tensor [OF wr])
  then show ?thesis
    using read_tensor_write_tensor [OF wr] by (simp add: weight_of_def)
qed

lemma sample_two_layer_init: "two_layer_init 0 1 [OInstance [], OInstance []] =
     Inr [OInstance [(''tok_embedding'', PyRef 4), (''lm_head'', PyRef 7)],
          OInstance [], OTensor \<lparr>shape = [2], dtype = Float32, elems = [1, 2]\<rparr>,
          OInstance [(''data'', PyRef 2)], OInstance [(''weight'', PyRef 3)],
          OTensor \<lparr>shape = [2], dtype = Float32, elems = [0, 0]\<rparr>,
          OInstance [(''data'', PyRef 5)], OInstance [(''weight'', PyRef 6)]]"
  by (simp add: two_layer_init_def new_def setattr_def)

lemma sample_Qwen_init: "Qwen_init two_layer_init 0 1 [OInstance [], OInstance []] =
     Inr [OInstance [(''tok_embedding'', PyRef 4), (''lm_head'', PyRef 7)],
          OInstance [], OTensor \<lparr>shape = [2], dtype = Float32, elems = [1, 2]\<rparr>,
          OInstance [(''data'', PyRef 2)], OInstance [(''weight'', PyRef 3)],
          OTensor \<lparr>shape = [2], dtype = Float32, elems = [0, 0]\<rparr>,
          OInstance [(''data'', PyRef 2)], OInstance [(''weight'', PyRef 6)]]"
  unfolding Qwen_init_def sample_two_layer_init by (simp add: getattr_def setattr_def)

text \<open>
  Claim C1. Whatever the superclass constructor does, when \<open>Qwen_init\<close> returns,
  the \<^verbatim>\<open>data\<close> of the head's weight and of the embedding's weight are the same
  value, the one the embedding's weight had when the superclass constructor returned; an
  in-place change of the weight made through either layer is read through both. Apart
  from the attribute \<^verbatim>\<open>data\<close> of the head's weight, every attribute of every
  object, and every object other than that parameter, is as the superclass constructor
  left it.
\<close>

theorem Qwen_init_shares_embedding_weight:
  assumes "Qwen_init super self config h = Inr h2"
  shows "\<exists>h1 lw d. super self config h = Inr h1 \<and>
      getattr_path h1 (PyRef self) [''lm_head'', ''weight''] = Inr (PyRef lw) \<and>
      getattr_path h1 (PyRef self) [''tok_embedding'', ''weight'', ''data''] = Inr d \<and>
      getattr_path h2 (PyRef self) [''lm_head'', ''weight'', ''data''] = Inr d \<and>
      getattr_path h2 (PyRef self) [''tok_embedding'', ''weight'', ''data''] = Inr d \<and>
      (\<forall>layer layer' xs h3.
         (layer = ''lm_head'' \<or> layer = ''tok_embedding'') \<longrightarrow>
         (layer' = ''lm_head'' \<or> layer' = ''tok_embedding'') \<longrightarrow>
         overwrite_weight self layer xs h2 = Inr h3 \<longrightarrow>
         (\<exists>t. weight_of h3 self layer' = Inr t \<and> elems t = xs)) \<and>
      (\<forall>r name. \<not> (r = lw \<and> name = ''data'') \<longrightarrow> getattr h2 r name = getattr h1 r name) \<and>
      (\<forall>r. r \<noteq> lw \<longrightarrow> lookup h2 r = lookup h1 r) \<and>
      length h2 = length h1"
proof -
  from assms obtain h1 d wv where
    super: "super self config h = Inr h1"
    and d: "getattr_path h1 (PyRef self) [''tok_embedding'', ''weight'', ''data''] = Inr d"
    and wv: "getattr_path h1 (PyRef self) [''lm_head'', ''weight''] = Inr wv"
    and set: "setattr wv ''data'' d h1 = Inr h2"
    unfolding Qwen_init_def by (auto simp: bind_def split: sum.splits)
  from set obtain lw where lw: "wv = PyRef lw"
    by (auto elim: setattr_InrD)
  note set' = set [unfolded lw]
  have attr: "getattr h2 r name = (if r = lw \<and> name = ''data'' then Inr d else getattr h1 r name)"
    for r name
    by (rule getattr_setattr [OF set'])
  have path2: "getattr_path h2 (PyRef self) [l, ''weight''] =
      getattr_path h1 (PyRef self) [l, ''weight'']" if "l \<noteq> ''data''" for l
    using that by (intro getattr_path_setattr [OF set']) simp
  have split3: "getattr_path g (PyRef self) [l, ''weight'', ''data''] =
      bind (getattr_path g (PyRef self) [l, ''weight'']) (\<lambda>v. getattr_path g v [''data''])"
    for g l
    using getattr_path_append [of g "PyRef self" "[l, ''weight'']" "[''data'']"] by simp
  have data: "getattr_path g (PyRef r) [''data''] = getattr g r ''data''" for g r
    by (cases "getattr g r ''data''") simp_all
  have p_head: "getattr_path h2 (PyRef self) [''lm_head'', ''weight''] = Inr (PyRef lw)"
    using path2 [of "''lm_head''"] wv lw by (simp del: getattr_path.simps)
  have head: "getattr_path h2 (PyRef self) [''lm_head'', ''weight'', ''data''] = Inr d"
    by (simp only: split3 p_head bind_Inr data attr) simp
  obtain w where w: "getattr_path h1 (PyRef self) [''tok_embedding'', ''weight''] = Inr w"
    and wd: "getattr_path h1 w [''data''] = Inr d"
    using d unfolding split3 [of h1] by (auto simp: bind_def split: sum.splits)
  have p_emb: "getattr_path h2 (PyRef self) [''tok_embedding'', ''weight''] = Inr w"
    using path2 [of "''tok_embedding''"] w by (simp del: getattr_path.simps)
  have emb: "getattr_path h2 (PyRef self) [''tok_embedding'', ''weight'', ''data''] = Inr d"
  proof -
    have "getattr_path h2 w [''data''] = Inr d"
      using wd by (cases w) (auto simp: attr bind_def split: sum.splits)
    then show ?thesis
      by (simp only: split3 p_emb bind_Inr)
  qed
  have mutate: "\<exists>t. weight_of h3 self layer' = Inr t \<and> elems t = xs"
    if "layer = ''lm_head'' \<or> layer = ''tok_embedding''"
      "layer' = ''lm_head'' \<or> layer' = ''tok_embedding''"
      "overwrite_weight self layer xs h2 = Inr h3"
    for layer layer' xs h3
  proof -
    from that(1) head emb
    have a: "getattr_path h2 (PyRef self) [layer, ''weight'', ''data''] = Inr d" by auto
    from that(2) head emb
    have b: "getattr_path h2 (PyRef self) [layer', ''weight'', ''data''] = Inr d" by auto
    from a b that(3) show ?thesis by (rule shared_data_shared_weight)
  qed
  have frame: "lookup h2 r = lookup h1 r" if "r \<noteq> lw" for r
    using set' that by (rule lookup_setattr)
  have len: "length h2 = length h1"
    using set by (rule length_setattr)
  show ?thesis
    using super wv [unfolded lw] d head emb mutate attr frame len
    by (intro exI [of _ h1] exI [of _ lw] exI [of _ d]) auto
qed

lemma sample_overwrite_weight:
  "overwrite_weight 0 ''lm_head'' [7, 8]
     [OInstance [(''tok_embedding'', PyRef 4), (''lm_head'', PyRef 7)],
      OInstance [], OTensor \<lparr>shape = [2], dtype = Float32, elems = [1, 2]\<rparr>,
      OInstance [(''data'', PyRef 2)], OInstance [(''weight'', PyRef 3)],
      OTensor \<lparr>shape = [2], dtype = Float32, elems = [0, 0]\<rparr>,
      OInstance [(''data'', PyRef 2)], OInstance [(''weight'', PyRef 6)]] =
   Inr [OInstance [(''tok_embedding'', PyRef 4), (''lm_head'', PyRef 7)],
      OInstance [], OTensor \<lparr>shape = [2], dtype = Float32, elems = [7, 8]\<rparr>,
      OInstance [(''data'', PyRef 2)], OInstance [(''weight'', PyRef 3)],
      OTensor \<lparr>shape = [2], dtype = Float32, elems = [0, 0]\<rparr>,
      OInstance [(''data'', PyRef 2)], OInstance [(''weight'', PyRef 6)]]"
  by (simp add: overwrite_weight_def getattr_def write_tensor_def)

text \<open>
  The theorem at work: the constructor run on a model of two layers with separate
  weights, followed by a write to the head's weight, which the embedding shows.
\<close>

theorem Qwen_init_shares_embedding_weight_witness:
  "Qwen_init two_layer_init 0 1 [OInstance [], OInstance []] =
     Inr [OInstance [(''tok_embedding'', PyRef 4), (''lm_head'', PyRef 7)],
          OInstance [], OTensor \<lparr>shape = [2], dtype = Float32, elems = [1, 2]\<rparr>,
          OInstance [(''data'', PyRef 2)], OInstance [(''weight'', PyRef 3)],
          OTensor \<lparr>shape = [2], dtype = Float32, elems = [0, 0]\<rparr>,
          OInstance [(''data'', PyRef 2)], OInstance [(''weight'', PyRef 6)]] \<and>
   (\<exists>t. weight_of
       [OInstance [(''tok_embedding'', PyRef 4), (''lm_head'', PyRef 7)],
        OInstance [], OTensor \<lparr>shape = [2], dtype = Float32, elems = [7, 8]\<rparr>,
        OInstance [(''data'', PyRef 2)], OInstance [(''weight'', PyRef 3)],
        OTensor \<lparr>shape = [2], dtype = Float32, elems = [0, 0]\<rparr>,
        OInstance [(''data'', PyRef 2)], OInstance [(''weight'', PyRef 6)]]
       0 ''tok_embedding'' = Inr t \<and> elems t = [7, 8])"
proof -
  from Qwen_init_shares_embedding_weight [OF sample_Qwen_init] obtain h1 lw d where
    "\<forall>layer layer' xs h3.
         (layer = ''lm_head'' \<or> layer = ''tok_embedding'') \<longrightarrow>
         (layer' = ''lm_head'' \<or> layer' = ''tok_embedding'') \<longrightarrow>
         overwrite_weight 0 layer xs
           [OInstance [(''tok_embedding'', PyRef 4), (''lm_head'', PyRef 7)],
            OInstance [], OTensor \<lparr>shape = [2], dtype = Float32, elems = [1, 2]\<rparr>,
            OInstance [(''data'', PyRef 2)], OInstance [(''weight'', PyRef 3)],
            OTensor \<lparr>shape = [2], dtype = Float32, elems = [0, 0]\<rparr>,
            OInstance [(''data'', PyRef 2)], OInstance [(''weight'', PyRef 6)]] = Inr h3 \<longrightarrow>
         (\<exists>t. weight_of h3 0 layer' = Inr t \<and> elems t = xs)"
    by (elim exE conjE)
  from this [rule_format, OF disjI1 disjI2, OF refl refl sample_overwrite_weight]
  have "\<exists>t. weight_of
       [OInstance [(''tok_embedding'', PyRef 4), (''lm_head'', PyRef 7)],
        OInstance [], OTensor \<lparr>shape = [2], dtype = Float32, elems = [7, 8]\<rparr>,
        OInstance [(''data'', PyRef 2)], OInstance [(''weight'', PyRef 3)],
        OTensor \<lparr>shape = [2], dtype = Float32, elems = [0, 0]\<rparr>,
        OInstance [(''data'', PyRef 2)], OInstance [(''weight'', PyRef 6)]]
       0 ''tok_embedding'' = Inr t \<and> elems t = [7, 8]" .
  with sample_Qwen_init show ?thesis by (rule conjI)
qed

subsection \<open>The conversion tests\<close>

lemma sample_tokens:
  "setitem_row_prefix (torch_full [1, 10] 0) 0 4 (from_numpy_array [[1, 2, 3, 4]]) =
     Inr \<lparr>shape = [1, 10], dtype = Int64, elems = [1, 2, 3, 4, 0, 0, 0, 0, 0, 0]\<rparr>"
  by (simp add: setitem_row_prefix_def torch_full_def from_numpy_array_def Let_def
      numeral_eq_Suc)

lemma sample_input_pos:
  "torch_arange 0 10 = \<lparr>shape = [10], dtype = Int64, elems = [0, 1, 2, 3, 4, 5, 6, 7, 8, 9]\<rparr>"
  by (simp add: torch_arange_def upto.simps)



lemma bind_eq_Inr: "(bind m f = Inr y) = (\<exists>x. m = Inr x \<and> f x = Inr y)"
  by (cases m) simp_all

lemma Inr_assertTrue: "(\<exists>x. c = Inr x \<and> assertTrue x = Inr u) = (c = Inr True)"
  by (cases c) (auto simp: assertTrue_def)

lemma skipIf_run [simp]: "skipIf False test = test"
  by (simp add: skipIf_def)

lemma skipIf_skip [simp]: "skipIf True test = Inl SkipTest"
  by (simp add: skipIf_def)

lemma sample_inputs:
  "test_gemma_inputs (sample_library xla answer) sample_module =
     Inr (3, 6,
          \<lparr>shape = [1, 10], dtype = Int64, elems = [1, 2, 3, 4, 0, 0, 0, 0, 0, 0]\<rparr>,
          \<lparr>shape = [10], dtype = Int64, elems = [0, 1, 2, 3, 4, 5, 6, 7, 8, 9]\<rparr>, 4)"
  unfolding test_gemma_inputs_def Let_def sample_tokens sample_input_pos
  by (simp add: sample_library_def sample_module_def)

text \<open>
  Claim C5, as stated: each test converts its model and asserts that the comparison
  returns \<^verbatim>\<open>True\<close>. With \<^verbatim>\<open>use_torch_xla\<close> set this is not so: on
  the library below the comparison of the converted model with the model, on the inputs
  the test builds and with the tolerances of gemma, returns \<^verbatim>\<open>False\<close>, and
  the test does not fail its assertion; it raises \<^verbatim>\<open>SkipTest\<close>.
\<close>

theorem tests_assert_comparison_counterexample:
  "use_torch_xla (sample_library True False) \<and>
   convert (sample_library True False) 6
     \<lparr>tokens = \<lparr>shape = [1, 10], dtype = Int64, elems = [1, 2, 3, 4, 0, 0, 0, 0, 0, 0]\<rparr>,
      input_pos = \<lparr>shape = [10], dtype = Int64, elems = [0, 1, 2, 3, 4, 5, 6, 7, 8, 9]\<rparr>,
      kv_cache = 4\<rparr> = Inr (6, 4) \<and>
   compare_tflite_torch (sample_library True False) (6, 4) 6
     \<lparr>shape = [1, 10], dtype = Int64, elems = [1, 2, 3, 4, 0, 0, 0, 0, 0, 0]\<rparr>
     \<lparr>shape = [10], dtype = Int64, elems = [0, 1, 2, 3, 4, 5, 6, 7, 8, 9]\<rparr>
     4 ''serving_default'' (1 / 100) (1 / 100000) = Inr False \<and>
   test_gemma (sample_library True False) sample_module \<noteq> Inl AssertionError \<and>
   test_gemma (sample_library True False) sample_module = Inl SkipTest \<and>
   test_gemma (sample_library False False) sample_module = Inl AssertionError"
proof -
  have flag: "use_torch_xla (sample_library True False)"
    "\<not> use_torch_xla (sample_library False False)"
    by (simp_all add: sample_library_def)
  have skipped: "test_gemma (sample_library True False) sample_module = Inl SkipTest"
    unfolding test_gemma_def using flag(1) by simp
  have run: "test_gemma (sample_library False False) sample_module = Inl AssertionError"
    unfolding test_gemma_def sample_inputs using flag(2)
    by (simp add: sample_library_def interpreter_builder_def assertTrue_def)
  show ?thesis
    using flag(1) skipped run by (simp add: sample_library_def)
qed

text \<open>
  Claim C5, amended. When \<^verbatim>\<open>Config.use_torch_xla\<close> is set, each of the three
  tests raises \<^verbatim>\<open>SkipTest\<close> and neither converts nor compares. When it is not
  set, each test passes exactly when its inputs are built, the model is converted with
  them, the interpreter builder is installed on the converted model, and
  \<^verbatim>\<open>compare_tflite_torch\<close>, called with the converted model, the original
  model and the same tokens, input positions and KV cache, returns \<^verbatim>\<open>True\<close>;
  the tolerances handed to it are atol 1e-2 and rtol 1e-5 for gemma, 1e-1 and 1e-3 for
  gemma2, 1e-3 and 1e-3 for phi2.
\<close>

theorem tests_assert_comparison_unless_skipped:
  "(use_torch_xla lib \<longrightarrow>
      test_gemma lib m = Inl SkipTest \<and> test_gemma2 lib m = Inl SkipTest \<and>
      test_phi2 lib m = Inl SkipTest) \<and>
   (\<not> use_torch_xla lib \<longrightarrow>
    (test_gemma lib m = Inr ()) =
     (\<exists>config model tokens input_pos kv edge tflite edge'.
        test_gemma_inputs lib m = Inr (config, model, tokens, input_pos, kv) \<and>
        convert lib model \<lparr>tokens = tokens, input_pos = input_pos, kv_cache = kv\<rparr> = Inr edge \<and>
        tflite_model lib edge = Inr tflite \<and>
        set_interpreter_builder lib edge (interpreter_builder tflite) = Inr edge' \<and>
        compare_tflite_torch lib edge' model tokens input_pos kv
          ''serving_default'' (1 / 100) (1 / 100000) = Inr True) \<and>
    (test_gemma2 lib m = Inr ()) =
     (\<exists>config model tokens input_pos kv edge tflite edge'.
        test_gemma2_inputs lib m = Inr (config, model, tokens, input_pos, kv) \<and>
        signature_convert lib ''prefill'' model
          \<lparr>tokens = tokens, input_pos = input_pos, kv_cache = kv\<rparr> = Inr edge \<and>
        tflite_model lib edge = Inr tflite \<and>
        set_interpreter_builder lib edge (interpreter_builder tflite) = Inr edge' \<and>
        compare_tflite_torch lib edge' model tokens input_pos kv
          ''prefill'' (1 / 10) (1 / 1000) = Inr True) \<and>
    (test_phi2 lib m = Inr ()) =
     (\<exists>config model tokens input_pos kv edge tflite edge'.
        test_phi2_inputs lib m = Inr (config, model, tokens, input_pos, kv) \<and>
        convert lib model \<lparr>tokens = tokens, input_pos = input_pos, kv_cache = kv\<rparr> = Inr edge \<and>
        tflite_model lib edge = Inr tflite \<and>
        set_interpreter_builder lib edge (interpreter_builder tflite) = Inr edge' \<and>
        compare_tflite_torch lib edge' model tokens input_pos kv
          ''serving_default'' (1 / 1000) (1 / 1000) = Inr True))"
proof (cases "use_torch_xla lib")
  case True
  then show ?thesis
    by (simp add: test_gemma_def test_gemma2_def test_phi2_def)
next
  case False
  then show ?thesis
    by (simp add: test_gemma_def test_gemma2_def test_phi2_def bind_eq_Inr Inr_assertTrue
        split_paired_Ex del: One_nat_def)
qed

text \<open>
  The theorem at work on both sides of the flag: not skipped, the test passes on a
  library whose comparison returns \<^verbatim>\<open>True\<close>; skipped, it raises
  \<^verbatim>\<open>SkipTest\<close> on the same library.
\<close>

theorem tests_assert_comparison_unless_skipped_witness:
  "\<not> use_torch_xla (sample_library False True) \<and>
   test_gemma (sample_library False True) sample_module = Inr () \<and>
   use_torch_xla (sample_library True True) \<and>
   test_gemma (sample_library True True) sample_module = Inl SkipTest"
proof -
  have flag: "\<not> use_torch_xla (sample_library False True)"
    "use_torch_xla (sample_library True True)"
    by (simp_all add: sample_library_def)
  have "test_gemma (sample_library False True) sample_module = Inr ()"
    using tests_assert_comparison_unless_skipped [of "sample_library False True" sample_module]
      flag(1) sample_inputs [of False True]
    by (simp add: sample_library_def)
  moreover have "test_gemma (sample_library True True) sample_module = Inl SkipTest"
    using tests_assert_comparison_unless_skipped [of "sample_library True True" sample_module]
      flag(2)
    by simp
  ultimately show ?thesis
    using flag by simp
qed

end
